theory Spec2Isabelle
  imports Complex_Main "HOL-Library.Word" "HOL-Library.AList" "HOL-Library.Sublist"
begin

section \<open>Strings and values of the JavaScript runtime\<close>

text \<open>
  The application is a React component (two revisions of the same file are in the
  repository, \<^verbatim>\<open>part_000\<close> and \<^verbatim>\<open>part_001\<close>). Its logic lives in
  \<^verbatim>\<open>cleanJsonString\<close> and in the three handlers \<^verbatim>\<open>handleGerarMapa\<close>,
  \<^verbatim>\<open>handleVoltar\<close> and \<^verbatim>\<open>handleExportPDF\<close>.

  A JavaScript string is a sequence of 16-bit code units; a regular expression without the
  \<^verbatim>\<open>u\<close> flag works on code units. \<open>str\<close> embeds an ASCII literal.
\<close>

type_synonym code_unit = "16 word"
type_synonym js_string = "code_unit list"

definition str :: "string \<Rightarrow> js_string" where
  "str s = map (\<lambda>c. of_nat (of_char c)) s"

text \<open>
  A JavaScript value as \<^verbatim>\<open>JSON.parse\<close> and object literals build it. An object is its
  list of own properties in the order of their creation, each key once (nothing below
  depends on the order); a number is the exact decimal value its literal
  denotes (the only operation on numbers here is the truthiness test of \<^verbatim>\<open>||\<close>, see
  \<open>truthy\<close>). Functions and prototype members are outside this type.
\<close>

datatype js =
    JUndefined
  | JNull
  | JBool bool
  | JNum rat
  | JStr js_string
  | JArr "js list"
  | JObj "(js_string \<times> js) list"

datatype exn =
    SyntaxError  \<comment> \<open>thrown by \<^verbatim>\<open>JSON.parse\<close>\<close>
  | TypeError    \<comment> \<open>reading a property of null or undefined, calling a non-function\<close>
  | External     \<comment> \<open>a rejection or exception of an external collaborator\<close>

fun show_nat :: "nat \<Rightarrow> js_string" where
  "show_nat n =
     (if n < 10 then [of_nat (48 + n)] else show_nat (n div 10) @ [of_nat (48 + n mod 10)])"

declare show_nat.simps [simp del]

definition index_props :: "js list \<Rightarrow> (js_string \<times> js) list" where
  "index_props xs = zip (map show_nat [0 ..< length xs]) xs"

text \<open>
  The own enumerable properties of a value, which is what an object spread
  \<^verbatim>\<open>{...v}\<close> copies: the properties of an object, the indexed elements of an array,
  the indexed one-unit strings of a string, nothing for the other primitives, and
  nothing for null and undefined.
\<close>

fun own_props :: "js \<Rightarrow> (js_string \<times> js) list" where
  "own_props (JObj kvs) = kvs"
| "own_props (JArr xs) = index_props xs"
| "own_props (JStr s) = index_props (map (\<lambda>c. JStr [c]) s)"
| "own_props _ = []"

text \<open>The own enumerable property \<open>k\<close> of a value, if it has one.\<close>

definition field :: "js \<Rightarrow> js_string \<Rightarrow> js option" where
  "field v k = map_of (own_props v) k"

text \<open>
  The property read \<^verbatim>\<open>v.k\<close>. It throws a TypeError on null and undefined and yields
  undefined for a property that is absent. The handlers read the names
  \<^verbatim>\<open>mapa\<close>, \<^verbatim>\<open>nodes\<close>, \<^verbatim>\<open>edges\<close>, \<^verbatim>\<open>resumo\<close>, \<^verbatim>\<open>id\<close> and \<^verbatim>\<open>data\<close> only, none of
  which is a member of a built-in prototype, so the own properties decide the read.
\<close>

definition get :: "js \<Rightarrow> js_string \<Rightarrow> exn + js" where
  "get v k =
     (case v of
        JUndefined \<Rightarrow> Inl TypeError
      | JNull \<Rightarrow> Inl TypeError
      | _ \<Rightarrow> Inr (case field v k of None \<Rightarrow> JUndefined | Some x \<Rightarrow> x))"

text \<open>
  Truthiness, as \<^verbatim>\<open>||\<close> and \<^verbatim>\<open>!\<close> test it. A number literal is falsy when it reads as
  \<open>0\<close> or \<open>-0\<close>, that is when its value rounds to zero as a double: at most half of the
  least positive double \<open>2\<^sup>-\<^sup>1\<^sup>0\<^sup>7\<^sup>4\<close> in magnitude.
\<close>

fun truthy :: "js \<Rightarrow> bool" where
  "truthy JUndefined = False"
| "truthy JNull = False"
| "truthy (JBool b) = b"
| "truthy (JNum q) = (\<bar>q\<bar> * 2 ^ 1075 > 1)"
| "truthy (JStr s) = (s \<noteq> [])"
| "truthy (JArr _) = True"
| "truthy (JObj _) = True"

section \<open>\<^verbatim>\<open>cleanJsonString\<close>\<close>

text \<open>
  \<^verbatim>\<open>text.replace(/^```json\s*/, '').replace(/```$/, '')\<close>.
  The class \<^verbatim>\<open>\s\<close> is ECMAScript's white space and line terminators. Neither
  expression has the \<^verbatim>\<open>m\<close> or \<^verbatim>\<open>g\<close> flag: \<^verbatim>\<open>^\<close> is the start of the input,
  \<^verbatim>\<open>$\<close> its end, and at most one match is replaced.
\<close>

definition is_space :: "code_unit \<Rightarrow> bool" where
  "is_space c \<longleftrightarrow>
     c = 0x9 \<or> c = 0xA \<or> c = 0xB \<or> c = 0xC \<or> c = 0xD \<or> c = 0x20 \<or> c = 0xA0 \<or> c = 0x1680
     \<or> (0x2000 \<le> c \<and> c \<le> 0x200A)
     \<or> c = 0x2028 \<or> c = 0x2029 \<or> c = 0x202F \<or> c = 0x205F \<or> c = 0x3000 \<or> c = 0xFEFF"

definition fence_open :: js_string where
  "fence_open = str ''```json''"

definition fence_close :: js_string where
  "fence_close = str ''```''"

definition replace_fence_open :: "js_string \<Rightarrow> js_string" where
  "replace_fence_open text =
     (if prefix fence_open text
      then dropWhile is_space (drop (length fence_open) text)
      else text)"

definition replace_fence_close :: "js_string \<Rightarrow> js_string" where
  "replace_fence_close text =
     (if suffix fence_close text
      then take (length text - length fence_close) text
      else text)"

definition cleanJsonString :: "js_string \<Rightarrow> js_string" where
  "cleanJsonString text = replace_fence_close (replace_fence_open text)"

section \<open>\<^verbatim>\<open>JSON.parse\<close>\<close>

text \<open>
  The runtime's parser, on the JSON grammar: a lexer from code units to tokens, then a
  pushdown automaton over the tokens. A text that is not JSON gives \<open>None\<close>, where
  \<^verbatim>\<open>JSON.parse\<close> throws a SyntaxError.
\<close>

datatype token =
    TLBrace | TRBrace | TLBrack | TRBrack | TColon | TComma
  | TTrue | TFalse | TNull
  | TString js_string
  | TNumber rat

definition is_json_ws :: "code_unit \<Rightarrow> bool" where
  "is_json_ws c \<longleftrightarrow> c = 0x20 \<or> c = 0x9 \<or> c = 0xA \<or> c = 0xD"

definition is_digit :: "code_unit \<Rightarrow> bool" where
  "is_digit c \<longleftrightarrow> 0x30 \<le> c \<and> c \<le> 0x39"

definition hex_val :: "code_unit \<Rightarrow> nat option" where
  "hex_val c =
     (if 0x30 \<le> c \<and> c \<le> 0x39 then Some (unat c - 48)
      else if 0x41 \<le> c \<and> c \<le> 0x46 then Some (unat c - 55)
      else if 0x61 \<le> c \<and> c \<le> 0x66 then Some (unat c - 87)
      else None)"

definition hex4 :: "code_unit \<Rightarrow> code_unit \<Rightarrow> code_unit \<Rightarrow> code_unit \<Rightarrow> code_unit option" where
  "hex4 a b c d =
     (case (hex_val a, hex_val b, hex_val c, hex_val d) of
        (Some h3, Some h2, Some h1, Some h0) \<Rightarrow> Some (of_nat (((h3 * 16 + h2) * 16 + h1) * 16 + h0))
      | _ \<Rightarrow> None)"

definition unescape :: "code_unit \<Rightarrow> code_unit option" where
  "unescape e =
     (if e = 0x22 \<or> e = 0x5C \<or> e = 0x2F then Some e
      else if e = 0x62 then Some 0x8
      else if e = 0x66 then Some 0xC
      else if e = 0x6E then Some 0xA
      else if e = 0x72 then Some 0xD
      else if e = 0x74 then Some 0x9
      else None)"

text \<open>The rest of a string literal after its opening quote: the string and what follows it.\<close>

fun lex_string :: "js_string \<Rightarrow> (js_string \<times> js_string) option" where
  "lex_string [] = None"
| "lex_string (c # cs) =
     (if c = 0x22 then Some ([], cs)
      else if c = 0x5C then
        (case cs of
           [] \<Rightarrow> None
         | e # es \<Rightarrow>
             if e = 0x75 then
               (case es of
                  a # b # c' # d # rest \<Rightarrow>
                    (case hex4 a b c' d of
                       None \<Rightarrow> None
                     | Some u \<Rightarrow> map_option (apfst ((#) u)) (lex_string rest))
                | _ \<Rightarrow> None)
             else
               (case unescape e of
                  None \<Rightarrow> None
                | Some u \<Rightarrow> map_option (apfst ((#) u)) (lex_string es)))
      else if c < 0x20 then None
      else map_option (apfst ((#) c)) (lex_string cs))"

definition digits_val :: "js_string \<Rightarrow> nat" where
  "digits_val ds = foldl (\<lambda>a c. 10 * a + (unat c - 48)) 0 ds"

text \<open>The three parts of a number literal after its sign: each gives its digits and the rest.\<close>

definition lex_int :: "js_string \<Rightarrow> (js_string \<times> js_string) option" where
  "lex_int s =
     (case s of
        [] \<Rightarrow> None
      | d # ds \<Rightarrow>
          if \<not> is_digit d then None
          else if d = 0x30 then Some ([d], ds)
          else Some (takeWhile is_digit s, dropWhile is_digit s))"

definition lex_frac :: "js_string \<Rightarrow> (js_string \<times> js_string) option" where
  "lex_frac s =
     (case s of
        [] \<Rightarrow> Some ([], [])
      | c # cs \<Rightarrow>
          if c = 0x2E then
            (if takeWhile is_digit cs = [] then None
             else Some (takeWhile is_digit cs, dropWhile is_digit cs))
          else Some ([], s))"

definition lex_exp :: "js_string \<Rightarrow> (int \<times> js_string) option" where
  "lex_exp s =
     (case s of
        [] \<Rightarrow> Some (0, [])
      | c # cs \<Rightarrow>
          if c = 0x65 \<or> c = 0x45 then
            (let (neg, r) =
               (case cs of
                  [] \<Rightarrow> (False, [])
                | x # xs \<Rightarrow>
                    if x = 0x2D then (True, xs) else if x = 0x2B then (False, xs) else (False, cs))
             in if takeWhile is_digit r = [] then None
                else Some ((if neg then - int (digits_val (takeWhile is_digit r))
                            else int (digits_val (takeWhile is_digit r))),
                           dropWhile is_digit r))
          else Some (0, s))"

definition scale10 :: "rat \<Rightarrow> int \<Rightarrow> rat" where
  "scale10 q e = (if 0 \<le> e then q * 10 ^ nat e else q / 10 ^ nat (- e))"

definition lex_number :: "js_string \<Rightarrow> (rat \<times> js_string) option" where
  "lex_number s =
     (let (neg, s1) = (case s of [] \<Rightarrow> (False, []) | c # cs \<Rightarrow> if c = 0x2D then (True, cs) else (False, s))
      in case lex_int s1 of
           None \<Rightarrow> None
         | Some (ip, s2) \<Rightarrow>
             (case lex_frac s2 of
                None \<Rightarrow> None
              | Some (fp, s3) \<Rightarrow>
                  (case lex_exp s3 of
                     None \<Rightarrow> None
                   | Some (e, s4) \<Rightarrow>
                       (let m = of_nat (digits_val ip) + of_nat (digits_val fp) / 10 ^ length fp;
                            v = scale10 m e
                        in Some (if neg then - v else v, s4)))))"

lemma lex_string_length: "lex_string cs = Some (s, rest) \<Longrightarrow> length rest < length cs"
proof (induction cs arbitrary: s rest rule: lex_string.induct)
  case 1
  then show ?case by simp
next
  case (2 c cs)
  then show ?case
    by (fastforce split: if_splits list.splits option.splits)
qed

lemma lex_int_length: "lex_int s = Some (ds, rest) \<Longrightarrow> length rest < length s"
  by (cases s)
     (auto simp: lex_int_def less_Suc_eq_le length_dropWhile_le split: if_splits)

lemma lex_frac_length: "lex_frac s = Some (ds, rest) \<Longrightarrow> length rest \<le> length s"
  by (cases s)
     (auto simp: lex_frac_def le_Suc_eq length_dropWhile_le le_SucI split: if_splits)

lemma lex_exp_length: "lex_exp s = Some (e, rest) \<Longrightarrow> length rest \<le> length s"
proof (cases s)
  case Nil
  then show "lex_exp s = Some (e, rest) \<Longrightarrow> length rest \<le> length s"
    by (simp add: lex_exp_def)
next
  case (Cons c cs)
  have d: "length (dropWhile is_digit r) \<le> length r" for r :: js_string
    by (rule length_dropWhile_le)
  assume "lex_exp s = Some (e, rest)"
  with Cons show "length rest \<le> length s"
    using d [of cs] d [of "tl cs"]
    by (cases cs) (auto simp: lex_exp_def Let_def split: if_splits)
qed

lemma lex_number_length: "lex_number s = Some (q, rest) \<Longrightarrow> length rest < length s"
proof -
  assume a: "lex_number s = Some (q, rest)"
  define s1 where "s1 = (case s of [] \<Rightarrow> [] | c # cs \<Rightarrow> if c = 0x2D then cs else s)"
  have s1: "length s1 \<le> length s"
    by (cases s) (auto simp: s1_def)
  from a obtain ip s2 fp s3 e where
    i: "lex_int s1 = Some (ip, s2)" and f: "lex_frac s2 = Some (fp, s3)"
    and x: "lex_exp s3 = Some (e, rest)"
    by (cases s) (auto simp: lex_number_def s1_def Let_def split: if_splits option.splits)
  from lex_int_length [OF i] lex_frac_length [OF f] lex_exp_length [OF x] s1
  show ?thesis by linarith
qed

function tokenize :: "js_string \<Rightarrow> token list option" where
  "tokenize [] = Some []"
| "tokenize (c # cs) =
     (if is_json_ws c then tokenize cs
      else if c = 0x7B then map_option ((#) TLBrace) (tokenize cs)
      else if c = 0x7D then map_option ((#) TRBrace) (tokenize cs)
      else if c = 0x5B then map_option ((#) TLBrack) (tokenize cs)
      else if c = 0x5D then map_option ((#) TRBrack) (tokenize cs)
      else if c = 0x3A then map_option ((#) TColon) (tokenize cs)
      else if c = 0x2C then map_option ((#) TComma) (tokenize cs)
      else if c = 0x22 then
        (case lex_string cs of
           None \<Rightarrow> None
         | Some (s, rest) \<Rightarrow> map_option ((#) (TString s)) (tokenize rest))
      else if c = 0x2D \<or> is_digit c then
        (case lex_number (c # cs) of
           None \<Rightarrow> None
         | Some (q, rest) \<Rightarrow> map_option ((#) (TNumber q)) (tokenize rest))
      else if prefix (str ''true'') (c # cs) then map_option ((#) TTrue) (tokenize (drop 3 cs))
      else if prefix (str ''false'') (c # cs) then map_option ((#) TFalse) (tokenize (drop 4 cs))
      else if prefix (str ''null'') (c # cs) then map_option ((#) TNull) (tokenize (drop 3 cs))
      else None)"
  by pat_completeness auto
termination
proof (relation "measure length")
  show "wf (measure length)" by simp
qed (auto simp: less_Suc_eq_le dest: lex_string_length lex_number_length)

text \<open>
  The automaton. A frame of the stack is an array or an object under construction: the
  elements read so far, or the members read so far and the key whose value is being read.
  A key that repeats keeps its first position and takes the last value, as the property
  definition of \<^verbatim>\<open>JSON.parse\<close> does.
\<close>

datatype frame =
    FArr "js list"
  | FObj "(js_string \<times> js) list" js_string

datatype pstate =
    Expect_value "frame list"
  | Array_open "frame list"
  | Object_open "frame list"
  | Expect_key "(js_string \<times> js) list" "frame list"
  | Expect_colon "(js_string \<times> js) list" js_string "frame list"
  | After_value js "frame list"

fun begin_value :: "frame list \<Rightarrow> token \<Rightarrow> pstate option" where
  "begin_value st TLBrace = Some (Object_open st)"
| "begin_value st TLBrack = Some (Array_open st)"
| "begin_value st TTrue = Some (After_value (JBool True) st)"
| "begin_value st TFalse = Some (After_value (JBool False) st)"
| "begin_value st TNull = Some (After_value JNull st)"
| "begin_value st (TString s) = Some (After_value (JStr s) st)"
| "begin_value st (TNumber q) = Some (After_value (JNum q) st)"
| "begin_value st _ = None"

fun pstep :: "pstate \<Rightarrow> token \<Rightarrow> pstate option" where
  "pstep (Expect_value st) t = begin_value st t"
| "pstep (Array_open st) t =
     (if t = TRBrack then Some (After_value (JArr []) st) else begin_value (FArr [] # st) t)"
| "pstep (Object_open st) t =
     (case t of
        TRBrace \<Rightarrow> Some (After_value (JObj []) st)
      | TString k \<Rightarrow> Some (Expect_colon [] k st)
      | _ \<Rightarrow> None)"
| "pstep (Expect_key ms st) t =
     (case t of TString k \<Rightarrow> Some (Expect_colon ms k st) | _ \<Rightarrow> None)"
| "pstep (Expect_colon ms k st) t =
     (if t = TColon then Some (Expect_value (FObj ms k # st)) else None)"
| "pstep (After_value v []) t = None"
| "pstep (After_value v (FArr xs # st)) t =
     (if t = TComma then Some (Expect_value (FArr (xs @ [v]) # st))
      else if t = TRBrack then Some (After_value (JArr (xs @ [v])) st)
      else None)"
| "pstep (After_value v (FObj ms k # st)) t =
     (if t = TComma then Some (Expect_key (AList.update k v ms) st)
      else if t = TRBrace then Some (After_value (JObj (AList.update k v ms)) st)
      else None)"

fun prun :: "pstate \<Rightarrow> token list \<Rightarrow> pstate option" where
  "prun p [] = Some p"
| "prun p (t # ts) = (case pstep p t of None \<Rightarrow> None | Some p' \<Rightarrow> prun p' ts)"

definition JSON_parse :: "js_string \<Rightarrow> js option" where
  "JSON_parse text =
     (case tokenize text of
        None \<Rightarrow> None
      | Some ts \<Rightarrow>
          (case prun (Expect_value []) ts of
             Some (After_value v []) \<Rightarrow> Some v
           | _ \<Rightarrow> None))"

section \<open>The reshaping of the parsed payload\<close>

text \<open>
  \<^verbatim>\<open>xs.map(f)\<close>: the receiver has a \<^verbatim>\<open>map\<close> method only when it is an array (a parsed
  object cannot hold a function, and a primitive has none); the callback's exception
  leaves the loop at once.
\<close>

fun mapE :: "('a \<Rightarrow> exn + 'b) \<Rightarrow> 'a list \<Rightarrow> exn + 'b list" where
  "mapE f [] = Inr []"
| "mapE f (x # xs) =
     (case f x of
        Inl e \<Rightarrow> Inl e
      | Inr y \<Rightarrow> (case mapE f xs of Inl e \<Rightarrow> Inl e | Inr ys \<Rightarrow> Inr (y # ys)))"

definition array_map :: "(js \<Rightarrow> exn + js) \<Rightarrow> js \<Rightarrow> exn + js list" where
  "array_map f a = (case a of JArr xs \<Rightarrow> mapE f xs | _ \<Rightarrow> Inl TypeError)"

text \<open>
  The callback of the nodes:
  \<^verbatim>\<open>n => ({ ...n, type: 'mindmap', data: { ...n.data, id: n.id } })\<close>.
\<close>

definition processNode :: "js \<Rightarrow> exn + js" where
  "processNode n =
     (case get n (str ''data'') of
        Inl e \<Rightarrow> Inl e
      | Inr d \<Rightarrow>
          (case get n (str ''id'') of
             Inl e \<Rightarrow> Inl e
           | Inr i \<Rightarrow>
               Inr (JObj (AList.update (str ''data'') (JObj (AList.update (str ''id'') i (own_props d)))
                           (AList.update (str ''type'') (JStr (str ''mindmap'')) (own_props n))))))"

text \<open>
  The callback of the edges:
  \<^verbatim>\<open>e => ({ ...e, animated: true, style: { stroke: '#6b7280', strokeWidth: 2 } })\<close>.
\<close>

definition edge_style :: js where
  "edge_style = JObj [(str ''stroke'', JStr (str ''#6b7280'')), (str ''strokeWidth'', JNum 2)]"

definition processEdge :: "js \<Rightarrow> js" where
  "processEdge e =
     JObj (AList.update (str ''style'') edge_style
            (AList.update (str ''animated'') (JBool True) (own_props e)))"

text \<open>\<^verbatim>\<open>dadosCompletos.mapa.nodes.map(...)\<close> and \<^verbatim>\<open>dadosCompletos.mapa.edges.map(...)\<close>.\<close>

definition processedNodes :: "js \<Rightarrow> exn + js list" where
  "processedNodes dadosCompletos =
     (case get dadosCompletos (str ''mapa'') of
        Inl e \<Rightarrow> Inl e
      | Inr mapa \<Rightarrow>
          (case get mapa (str ''nodes'') of
             Inl e \<Rightarrow> Inl e
           | Inr ns \<Rightarrow> array_map processNode ns))"

definition processedEdges :: "js \<Rightarrow> exn + js list" where
  "processedEdges dadosCompletos =
     (case get dadosCompletos (str ''mapa'') of
        Inl e \<Rightarrow> Inl e
      | Inr mapa \<Rightarrow>
          (case get mapa (str ''edges'') of
             Inl e \<Rightarrow> Inl e
           | Inr es \<Rightarrow> array_map (\<lambda>e. Inr (processEdge e)) es))"

text \<open>
  The fallback summary \<^verbatim>\<open>'N\u00e3o foi poss\u00edvel gerar um resumo.'\<close>, its two
  letters outside ASCII (written here as escapes) given by their code units.
\<close>

definition fallback_resumo :: js_string where
  "fallback_resumo =
     str ''N'' @ [0xE3] @ str ''o foi poss'' @ [0xED] @ str ''vel gerar um resumo.''"

section \<open>The view state and the handlers\<close>

text \<open>
  The component's state (\<^verbatim>\<open>useState\<close>, and \<^verbatim>\<open>useNodesState\<close> and
  \<^verbatim>\<open>useEdgesState\<close> in \<^verbatim>\<open>part_001\<close>, whose setters are plain state setters).
  \<^verbatim>\<open>resumo\<close> holds whatever value \<^verbatim>\<open>setResumo\<close> is given; \<^verbatim>\<open>isLocked\<close> exists in
  \<^verbatim>\<open>part_001\<close> only and no handler below writes it.
\<close>

datatype screen = HOME | LOADING | RESULT

record state =
  tema :: js_string
  nodes :: "js list"
  edges :: "js list"
  resumo :: js
  telaAtual :: screen
  isLocked :: bool

definition initial_state :: state where
  "initial_state =
     \<lparr>tema = [], nodes = [], edges = [], resumo = JStr [], telaAtual = HOME, isLocked = False\<rparr>"

datatype revision = Part_000 | Part_001

text \<open>
  The four texts shown by \<^verbatim>\<open>alert\<close>: the missing topic, the missing API key, the
  failed generation (one text for every exception the handler catches) and the failed
  export.
\<close>

datatype message =
    Msg_missing_topic
  | Msg_missing_key
  | Msg_generation_failed
  | Msg_export_failed

text \<open>
  What a handler does, in the order in which it does it: the calls of the state setters
  and the calls that leave the component. \<open>GenerateContent\<close> is the request
  \<^verbatim>\<open>model.generateContent(getPrompt(tema))\<close>, recorded with the topic its prompt is
  built from.
\<close>

datatype cursor = Wait | Default

datatype event =
    SetTema js_string
  | SetNodes "js list"
  | SetEdges "js list"
  | SetResumo js
  | SetTelaAtual screen
  | Alert message
  | ConsoleError exn
  | GenerateContent js_string
  | BlurNodes
  | Delay nat
  | SetCursor cursor
  | ToPng
  | SavePdf js_string

fun apply_event :: "state \<Rightarrow> event \<Rightarrow> state" where
  "apply_event s (SetTema t) = s\<lparr>tema := t\<rparr>"
| "apply_event s (SetNodes ns) = s\<lparr>nodes := ns\<rparr>"
| "apply_event s (SetEdges es) = s\<lparr>edges := es\<rparr>"
| "apply_event s (SetResumo r) = s\<lparr>resumo := r\<rparr>"
| "apply_event s (SetTelaAtual t) = s\<lparr>telaAtual := t\<rparr>"
| "apply_event s _ = s"

definition run :: "state \<Rightarrow> event list \<Rightarrow> state" where
  "run s evs = foldl apply_event s evs"

text \<open>The \<^verbatim>\<open>catch\<close> block of \<^verbatim>\<open>handleGerarMapa\<close>.\<close>

definition catch_block :: "exn \<Rightarrow> event list" where
  "catch_block error = [ConsoleError error, Alert Msg_generation_failed, SetTelaAtual HOME]"

text \<open>
  The \<^verbatim>\<open>try\<close> block of \<^verbatim>\<open>handleGerarMapa\<close> from the request on. \<open>response\<close> is what
  the request and \<^verbatim>\<open>response.text()\<close> give: the text, or the exception they end in.
\<close>

definition try_block :: "exn + js_string \<Rightarrow> event list" where
  "try_block response =
     (case response of
        Inl error \<Rightarrow> catch_block error
      | Inr respostaJsonString \<Rightarrow>
          (case JSON_parse (cleanJsonString respostaJsonString) of
             None \<Rightarrow> catch_block SyntaxError
           | Some dadosCompletos \<Rightarrow>
               (case processedNodes dadosCompletos of
                  Inl error \<Rightarrow> catch_block error
                | Inr ns \<Rightarrow>
                    (case processedEdges dadosCompletos of
                       Inl error \<Rightarrow> catch_block error
                     | Inr es \<Rightarrow>
                         [SetNodes ns, SetEdges es] @
                         (case get dadosCompletos (str ''resumo'') of
                            Inl error \<Rightarrow> catch_block error
                          | Inr r \<Rightarrow>
                              [SetResumo (if truthy r then r else JStr fallback_resumo),
                               SetTelaAtual RESULT])))))"

text \<open>
  \<^verbatim>\<open>handleGerarMapa\<close>. \<open>apiKey\<close> is \<^verbatim>\<open>import.meta.env.VITE_GEMINI_API_KEY\<close>, a string
  or undefined. The two revisions differ in one call: \<^verbatim>\<open>part_001\<close> has
  \<^verbatim>\<open>setEdges([])\<close> between \<^verbatim>\<open>setNodes([])\<close> and \<^verbatim>\<open>setResumo('')\<close>, \<^verbatim>\<open>part_000\<close> has not.
\<close>

definition handleGerarMapa ::
  "revision \<Rightarrow> js_string option \<Rightarrow> (exn + js_string) \<Rightarrow> state \<Rightarrow> event list" where
  "handleGerarMapa rv apiKey response s =
     (if tema s = [] then [Alert Msg_missing_topic]
      else
        [SetTelaAtual LOADING, SetNodes []] @
        (if rv = Part_001 then [SetEdges []] else []) @
        [SetResumo (JStr [])] @
        (if apiKey = None \<or> apiKey = Some [] then [Alert Msg_missing_key, SetTelaAtual HOME]
         else GenerateContent (tema s) # try_block response))"

text \<open>\<^verbatim>\<open>handleVoltar\<close>, the same in both revisions.\<close>

definition handleVoltar :: "event list" where
  "handleVoltar = [SetTema [], SetNodes [], SetEdges [], SetResumo (JStr []), SetTelaAtual HOME]"

text \<open>
  \<^verbatim>\<open>handleExportPDF\<close>. \<open>mounted\<close> says that \<^verbatim>\<open>mapRef.current\<close> is not null.
  What the \<^verbatim>\<open>try\<close> block does is the work of the rasterizer and of the PDF writer, and
  \<open>outcome\<close> says where it ends: the rasterization throws, the assembly of the
  document throws, or the file is saved under the name \<^verbatim>\<open>`${tema || 'mapa-mental'}.pdf`\<close>.
  \<^verbatim>\<open>part_001\<close> first takes the focus off the nodes and waits 50 ms.
\<close>

datatype export_outcome =
    Rasterization_fails exn
  | Assembly_fails exn
  | Export_succeeds

definition handleExportPDF :: "revision \<Rightarrow> bool \<Rightarrow> export_outcome \<Rightarrow> state \<Rightarrow> event list" where
  "handleExportPDF rv mounted outcome s =
     (if \<not> mounted then []
      else
        (if rv = Part_001 then [BlurNodes, Delay 50] else []) @
        [SetCursor Wait, ToPng] @
        (case outcome of
           Rasterization_fails err \<Rightarrow> [ConsoleError err, Alert Msg_export_failed]
         | Assembly_fails err \<Rightarrow> [ConsoleError err, Alert Msg_export_failed]
         | Export_succeeds \<Rightarrow>
             [SavePdf ((if tema s = [] then str ''mapa-mental'' else tema s) @ str ''.pdf'')]) @
        [SetCursor Default])"

section \<open>The screens and what the user can do on them\<close>


section \<open>Concrete inputs\<close>

text \<open>The fenced text \<^verbatim>\<open>"```json\n{\"a\":1}\n```"\<close> and the bare text \<^verbatim>\<open>{"a":1}\<close>.\<close>

definition fenced_example :: js_string where
  \<open>fenced_example = str ''```json'' @ [0xA] @ str ''{"a":1}'' @ [0xA] @ str ''```''\<close>

definition bare_example :: js_string where
  \<open>bare_example = str ''{"a":1}''\<close>

text \<open>
  The payload with one node
  \<^verbatim>\<open>{id:"1", position:{x:0,y:0}, data:{label:"Root", descricao:"d"}}\<close>, no edge and the
  summary \<^verbatim>\<open>"s"\<close>.
\<close>

definition example_node :: js where
  "example_node =
     JObj [(str ''id'', JStr (str ''1'')),
           (str ''position'', JObj [(str ''x'', JNum 0), (str ''y'', JNum 0)]),
           (str ''data'', JObj [(str ''label'', JStr (str ''Root'')),
                                (str ''descricao'', JStr (str ''d''))])]"

definition example_mapa :: js where
  "example_mapa = JObj [(str ''nodes'', JArr [example_node]), (str ''edges'', JArr [])]"

definition example_payload :: js where
  "example_payload = JObj [(str ''mapa'', example_mapa), (str ''resumo'', JStr (str ''s''))]"

text \<open>
  A node whose \<^verbatim>\<open>data\<close> already has an \<^verbatim>\<open>id\<close>, different from the node's own:
  \<^verbatim>\<open>{id:"7", data:{id:"x", label:"L"}}\<close>.
\<close>

definition clashing_node :: js where
  "clashing_node =
     JObj [(str ''id'', JStr (str ''7'')),
           (str ''data'', JObj [(str ''id'', JStr (str ''x'')), (str ''label'', JStr (str ''L''))])]"

definition clashing_payload :: js where
  "clashing_payload =
     JObj [(str ''mapa'', JObj [(str ''nodes'', JArr [clashing_node]), (str ''edges'', JArr [])])]"

text \<open>
  A payload without nodes whose only edge \<^verbatim>\<open>{id:"e1", source:"1", target:"99"}\<close>
  names two nodes that do not exist, and the JSON text of that payload.
\<close>

definition dangling_edge :: js where
  "dangling_edge =
     JObj [(str ''id'', JStr (str ''e1'')), (str ''source'', JStr (str ''1'')),
           (str ''target'', JStr (str ''99''))]"

definition dangling_mapa :: js where
  "dangling_mapa = JObj [(str ''nodes'', JArr []), (str ''edges'', JArr [dangling_edge])]"

definition dangling_payload :: js where
  "dangling_payload = JObj [(str ''mapa'', dangling_mapa)]"

definition dangling_text :: js_string where
  \<open>dangling_text =
     str ''{"mapa":{"nodes":[],"edges":[{"id":"e1","source":"1","target":"99"}]}}''\<close>

text \<open>
  Responses of the model: with an empty summary, without a summary, the payload
  \<open>example_payload\<close> as a text, a text cut off inside an object, and a text whose
  node list holds null.
\<close>

definition empty_resumo_text :: js_string where
  \<open>empty_resumo_text = str ''{"mapa":{"nodes":[],"edges":[]},"resumo":""}''\<close>

definition no_resumo_text :: js_string where
  \<open>no_resumo_text = str ''{"mapa":{"nodes":[],"edges":[]}}''\<close>

definition example_text :: js_string where
  \<open>example_text =
     str ''{"mapa":{"nodes":[{"id":"1","position":{"x":0,"y":0},"data":{"label":"Root","descricao":"d"}}],"edges":[]},"resumo":"s"}''\<close>

definition truncated_text :: js_string where
  \<open>truncated_text = str ''{"mapa":{"nodes":[{"id":"1"''\<close>

definition null_node_text :: js_string where
  \<open>null_node_text = str ''{"mapa":{"nodes":[null],"edges":[]},"resumo":"s"}''\<close>

definition empty_resumo_payload :: js where
  "empty_resumo_payload =
     JObj [(str ''mapa'', JObj [(str ''nodes'', JArr []), (str ''edges'', JArr [])]),
           (str ''resumo'', JStr [])]"

definition no_resumo_payload :: js where
  "no_resumo_payload =
     JObj [(str ''mapa'', JObj [(str ''nodes'', JArr []), (str ''edges'', JArr [])])]"

text \<open>
  Payloads whose node list holds a well-formed node and then null, and their texts: with
  the node of \<open>example_payload\<close>, and with the node whose \<^verbatim>\<open>data\<close> has an \<^verbatim>\<open>id\<close> of
  its own.
\<close>

definition mixed_mapa :: js where
  "mixed_mapa = JObj [(str ''nodes'', JArr [example_node, JNull]), (str ''edges'', JArr [])]"

definition mixed_payload :: js where
  "mixed_payload = JObj [(str ''mapa'', mixed_mapa), (str ''resumo'', JStr (str ''s''))]"

definition mixed_text :: js_string where
  \<open>mixed_text =
     str ''{"mapa":{"nodes":[{"id":"1","position":{"x":0,"y":0},"data":{"label":"Root","descricao":"d"}},null],"edges":[]},"resumo":"s"}''\<close>

definition clashing_mixed_mapa :: js where
  "clashing_mixed_mapa =
     JObj [(str ''nodes'', JArr [clashing_node, JNull]), (str ''edges'', JArr [])]"

definition clashing_mixed_payload :: js where
  "clashing_mixed_payload = JObj [(str ''mapa'', clashing_mixed_mapa)]"

definition clashing_mixed_text :: js_string where
  \<open>clashing_mixed_text =
     str ''{"mapa":{"nodes":[{"id":"7","data":{"id":"x","label":"L"}},null],"edges":[]}}''\<close>

text \<open>
  States: the initial state with a topic typed in; a state showing a result; the state
  after a generation that stored an edge (from the response \<open>dangling_text\<close>, in
  \<^verbatim>\<open>part_000\<close>), and the state after the reset that follows it and a new topic.
\<close>

definition typed_state :: state where
  "typed_state = initial_state\<lparr>tema := str ''Guerra Fria''\<rparr>"

definition result_state :: state where
  "result_state =
     \<lparr>tema = str ''Guerra Fria'', nodes = [example_node], edges = [], resumo = JStr (str ''s''),
      telaAtual = RESULT, isLocked = False\<rparr>"





section \<open>Auxiliary facts\<close>

lemma field_update:
  "field (JObj (AList.update k v al)) k' = (if k' = k then Some v else map_of al k')"
  by (simp add: field_def update_conv')

lemma get_defined:
  assumes "v \<noteq> JNull" and "v \<noteq> JUndefined"
  shows "get v k = Inr (case field v k of None \<Rightarrow> JUndefined | Some x \<Rightarrow> x)"
  using assms by (cases v) (simp_all add: get_def)

lemma get_Inr_defined: "get v k = Inr x \<Longrightarrow> v \<noteq> JNull \<and> v \<noteq> JUndefined"
  by (cases v) (simp_all add: get_def)

lemma mapE_total:
  assumes "\<forall>x \<in> set xs. \<exists>y. f x = Inr y"
  shows "\<exists>ys. mapE f xs = Inr ys \<and> length ys = length xs
           \<and> (\<forall>i < length xs. f (xs ! i) = Inr (ys ! i))"
  using assms
proof (induction xs)
  case Nil
  then show ?case by simp
next
  case (Cons x xs)
  then obtain y ys where y: "f x = Inr y" and ys: "mapE f xs = Inr ys" "length ys = length xs"
    "\<forall>i < length xs. f (xs ! i) = Inr (ys ! i)"
    by auto
  have "\<forall>i < length (x # xs). f ((x # xs) ! i) = Inr ((y # ys) ! i)"
    using y ys(3) by (auto simp: nth_Cons split: nat.splits)
  with y ys show ?case by simp
qed

lemma mapE_Inr_map: "mapE (\<lambda>x. Inr (g x)) xs = Inr (map g xs)"
  by (induction xs) simp_all

lemma key_distinct:
  "str ''id'' \<noteq> str ''type''" "str ''id'' \<noteq> str ''data''" "str ''position'' \<noteq> str ''type''"
  "str ''position'' \<noteq> str ''data''" "str ''type'' \<noteq> str ''data''"
  "str ''id'' \<noteq> str ''animated''" "str ''id'' \<noteq> str ''style''"
  "str ''source'' \<noteq> str ''animated''" "str ''source'' \<noteq> str ''style''"
  "str ''target'' \<noteq> str ''animated''" "str ''target'' \<noteq> str ''style''"
  "str ''animated'' \<noteq> str ''style''"
  by (simp_all add: str_def)

lemma processNode_defined:
  assumes "n \<noteq> JNull" and "n \<noteq> JUndefined"
  shows "\<exists>p. processNode n = Inr p"
  using assms by (simp add: processNode_def get_defined)

lemma processNode_fields:
  assumes p: "processNode n = Inr p"
  shows "\<exists>d i d'. get n (str ''data'') = Inr d \<and> get n (str ''id'') = Inr i
     \<and> (\<forall>k. k \<noteq> str ''type'' \<and> k \<noteq> str ''data'' \<longrightarrow> field p k = field n k)
     \<and> field p (str ''type'') = Some (JStr (str ''mindmap''))
     \<and> field p (str ''data'') = Some d'
     \<and> (\<forall>k. k \<noteq> str ''id'' \<longrightarrow> field d' k = field d k)
     \<and> field d' (str ''id'') = Some i"
proof -
  from p obtain d i where d: "get n (str ''data'') = Inr d" and i: "get n (str ''id'') = Inr i"
    and pe: "p = JObj (AList.update (str ''data'') (JObj (AList.update (str ''id'') i (own_props d)))
                   (AList.update (str ''type'') (JStr (str ''mindmap'')) (own_props n)))"
    by (auto simp: processNode_def split: sum.splits)
  let ?d' = "JObj (AList.update (str ''id'') i (own_props d))"
  have 1: "\<forall>k. k \<noteq> str ''type'' \<and> k \<noteq> str ''data'' \<longrightarrow> field p k = field n k"
    by (simp add: pe field_update update_conv') (simp add: field_def)
  have 2: "field p (str ''type'') = Some (JStr (str ''mindmap''))"
    by (simp add: pe field_update update_conv' key_distinct)
  have 3: "field p (str ''data'') = Some ?d'"
    by (simp add: pe field_update)
  have 4: "\<forall>k. k \<noteq> str ''id'' \<longrightarrow> field ?d' k = field d k"
    by (simp add: field_update) (simp add: field_def)
  have 5: "field ?d' (str ''id'') = Some i"
    by (simp add: field_update)
  from d i 1 2 3 4 5 show ?thesis by blast
qed

lemma processEdge_fields:
  "field (processEdge e) (str ''animated'') = Some (JBool True)"
  "field (processEdge e) (str ''style'') = Some edge_style"
  "k \<noteq> str ''animated'' \<Longrightarrow> k \<noteq> str ''style'' \<Longrightarrow> field (processEdge e) k = field e k"
  by (simp_all add: processEdge_def field_update update_conv' key_distinct) (simp add: field_def)

lemma mapE_fails:
  assumes "\<forall>x e. f x = Inl e \<longrightarrow> e = TypeError" and "\<exists>x \<in> set xs. \<exists>e. f x = Inl e"
  shows "mapE f xs = Inl TypeError"
  using assms(2)
proof (induction xs)
  case Nil
  then show ?case by simp
next
  case (Cons x xs)
  show ?case
  proof (cases "f x")
    case (Inl e)
    with assms(1) show ?thesis by simp
  next
    case (Inr y)
    with Cons have "mapE f xs = Inl TypeError" by auto
    with Inr show ?thesis by simp
  qed
qed

lemma processNode_error: "processNode n = Inl e \<Longrightarrow> e = TypeError"
  by (cases n) (auto simp: processNode_def get_def split: sum.splits)

text \<open>
  A null entry among the nodes ends the reshaping in a TypeError (\<^verbatim>\<open>n.data\<close> is read
  from null), whatever the other entries are.
\<close>

lemma processedNodes_null_entry:
  assumes "get dadosCompletos (str ''mapa'') = Inr mapa"
    and "get mapa (str ''nodes'') = Inr (JArr ns)"
    and "JNull \<in> set ns"
  shows "processedNodes dadosCompletos = Inl TypeError"
proof -
  have "processNode JNull = Inl TypeError"
    by (simp add: processNode_def get_def)
  with assms(3) have "\<exists>x \<in> set ns. \<exists>e. processNode x = Inl e"
    by blast
  with processNode_error have "mapE processNode ns = Inl TypeError"
    by (intro mapE_fails) blast+
  with assms(1,2) show ?thesis
    by (simp add: processedNodes_def array_map_def)
qed

lemma reshaped_payload_defined:
  assumes "processedNodes d = Inr ps"
  shows "get d k = Inr (case field d k of None \<Rightarrow> JUndefined | Some x \<Rightarrow> x)"
proof -
  from assms obtain m where "get d (str ''mapa'') = Inr m"
    by (auto simp: processedNodes_def split: sum.splits)
  from get_Inr_defined [OF this] show ?thesis
    by (simp add: get_defined)
qed

lemma fallback_resumo_nonempty: "fallback_resumo \<noteq> []"
  by (simp add: fallback_resumo_def str_def)

lemma try_block_success:
  assumes "JSON_parse (cleanJsonString text) = Some d"
    and "processedNodes d = Inr ps" and "processedEdges d = Inr qs"
  shows "try_block (Inr text) =
     [SetNodes ps, SetEdges qs,
      SetResumo (let r = (case field d (str ''resumo'') of None \<Rightarrow> JUndefined | Some x \<Rightarrow> x)
                 in if truthy r then r else JStr fallback_resumo),
      SetTelaAtual RESULT]"
  using assms by (simp add: try_block_def reshaped_payload_defined [OF assms(2)] Let_def)

lemma run_loading:
  "run s ([SetTelaAtual LOADING, SetNodes []] @ (if rv = Part_001 then [SetEdges []] else []) @
          [SetResumo (JStr [])] @ evs) =
   run (s\<lparr>telaAtual := LOADING, nodes := [],
           edges := (if rv = Part_001 then [] else edges s), resumo := JStr []\<rparr>) evs"
  by (simp add: run_def)




text \<open>Evaluation of the concrete inputs.\<close>

lemmas json_eval = JSON_parse_def str_def is_json_ws_def is_digit_def
        lex_number_def lex_int_def lex_frac_def lex_exp_def digits_val_def scale10_def

lemmas clean_eval = str_def fence_open_def fence_close_def
        is_space_def replace_fence_open_def replace_fence_close_def cleanJsonString_def
        suffix_to_prefix

lemma parse_empty_resumo_text:
  "JSON_parse (cleanJsonString empty_resumo_text) =
     Some (JObj [(str ''mapa'', JObj [(str ''nodes'', JArr []), (str ''edges'', JArr [])]),
                 (str ''resumo'', JStr [])])"
proof -
  have "cleanJsonString empty_resumo_text = empty_resumo_text"
    by (simp add: empty_resumo_text_def clean_eval)
  then show ?thesis
    by (simp add: empty_resumo_text_def json_eval)
qed

lemma parse_no_resumo_text:
  "JSON_parse (cleanJsonString no_resumo_text) =
     Some (JObj [(str ''mapa'', JObj [(str ''nodes'', JArr []), (str ''edges'', JArr [])])])"
proof -
  have "cleanJsonString no_resumo_text = no_resumo_text"
    by (simp add: no_resumo_text_def clean_eval)
  then show ?thesis
    by (simp add: no_resumo_text_def json_eval)
qed

lemma parse_example_text:
  "JSON_parse (cleanJsonString example_text) = Some example_payload"
proof -
  have "cleanJsonString example_text = example_text"
    by (simp add: example_text_def clean_eval)
  then show ?thesis
    by (simp add: example_text_def example_payload_def example_mapa_def example_node_def json_eval)
qed

lemma parse_truncated_text:
  "JSON_parse (cleanJsonString truncated_text) = None"
proof -
  have "cleanJsonString truncated_text = truncated_text"
    by (simp add: truncated_text_def clean_eval)
  then show ?thesis
    by (simp add: truncated_text_def json_eval)
qed

lemmas reshape_eval = processedNodes_def processedEdges_def array_map_def get_def field_def
  str_def processNode_def

lemma parse_dangling_text:
  "JSON_parse (cleanJsonString dangling_text) = Some dangling_payload"
proof -
  have "cleanJsonString dangling_text = dangling_text"
    by (simp add: dangling_text_def clean_eval)
  then show ?thesis
    by (simp add: dangling_text_def dangling_payload_def dangling_mapa_def dangling_edge_def
        json_eval)
qed

lemma parse_null_node_text:
  "JSON_parse (cleanJsonString null_node_text) =
     Some (JObj [(str ''mapa'', JObj [(str ''nodes'', JArr [JNull]), (str ''edges'', JArr [])]),
                 (str ''resumo'', JStr (str ''s''))])"
proof -
  have "cleanJsonString null_node_text = null_node_text"
    by (simp add: null_node_text_def clean_eval)
  then show ?thesis
    by (simp add: null_node_text_def json_eval)
qed




text \<open>
  The reshaping of the nodes returns exactly when \<^verbatim>\<open>mapa.nodes\<close> is an array without a
  null (or undefined) entry.
\<close>

lemma mapE_Inr_all:
  "mapE f xs = Inr ys \<Longrightarrow> \<forall>x \<in> set xs. \<exists>y. f x = Inr y"
  by (induction xs arbitrary: ys) (auto split: sum.splits)

lemma processNode_Inr_defined: "processNode n = Inr p \<Longrightarrow> n \<noteq> JNull \<and> n \<noteq> JUndefined"
  by (auto simp: processNode_def get_def)

lemma processedNodes_returns_iff:
  "(\<exists>ps. processedNodes dadosCompletos = Inr ps) \<longleftrightarrow>
   (\<exists>mapa ns. get dadosCompletos (str ''mapa'') = Inr mapa
       \<and> get mapa (str ''nodes'') = Inr (JArr ns)
       \<and> (\<forall>n \<in> set ns. n \<noteq> JNull \<and> n \<noteq> JUndefined))"
proof
  assume "\<exists>ps. processedNodes dadosCompletos = Inr ps"
  then obtain ps mapa ns where m: "get dadosCompletos (str ''mapa'') = Inr mapa"
    and n: "get mapa (str ''nodes'') = Inr (JArr ns)" and e: "mapE processNode ns = Inr ps"
    by (auto simp: processedNodes_def array_map_def split: sum.splits js.splits)
  from mapE_Inr_all [OF e] processNode_Inr_defined
  have "\<forall>n \<in> set ns. n \<noteq> JNull \<and> n \<noteq> JUndefined"
    by blast
  with m n show "\<exists>mapa ns. get dadosCompletos (str ''mapa'') = Inr mapa
       \<and> get mapa (str ''nodes'') = Inr (JArr ns)
       \<and> (\<forall>n \<in> set ns. n \<noteq> JNull \<and> n \<noteq> JUndefined)"
    by blast
next
  assume "\<exists>mapa ns. get dadosCompletos (str ''mapa'') = Inr mapa
       \<and> get mapa (str ''nodes'') = Inr (JArr ns)
       \<and> (\<forall>n \<in> set ns. n \<noteq> JNull \<and> n \<noteq> JUndefined)"
  then obtain mapa ns where m: "get dadosCompletos (str ''mapa'') = Inr mapa"
    and n: "get mapa (str ''nodes'') = Inr (JArr ns)"
    and d: "\<forall>n \<in> set ns. n \<noteq> JNull \<and> n \<noteq> JUndefined"
    by blast
  then have "\<forall>n \<in> set ns. \<exists>p. processNode n = Inr p"
    using processNode_defined by blast
  from mapE_total [OF this] m n show "\<exists>ps. processedNodes dadosCompletos = Inr ps"
    by (auto simp: processedNodes_def array_map_def)
qed

lemma parse_mixed_text: "JSON_parse (cleanJsonString mixed_text) = Some mixed_payload"
proof -
  have "cleanJsonString mixed_text = mixed_text"
    by (simp add: mixed_text_def clean_eval)
  then show ?thesis
    by (simp add: mixed_text_def mixed_payload_def mixed_mapa_def example_node_def json_eval)
qed

lemma parse_clashing_mixed_text:
  "JSON_parse (cleanJsonString clashing_mixed_text) = Some clashing_mixed_payload"
proof -
  have "cleanJsonString clashing_mixed_text = clashing_mixed_text"
    by (simp add: clashing_mixed_text_def clean_eval)
  then show ?thesis
    by (simp add: clashing_mixed_text_def clashing_mixed_payload_def clashing_mixed_mapa_def
        clashing_node_def json_eval)
qed

lemma handleGerarMapa_reshaping_fails:
  assumes "tema s \<noteq> []" and "key \<noteq> []"
    and "JSON_parse (cleanJsonString body) = Some d" and "processedNodes d = Inl e"
  shows "handleGerarMapa rv (Some key) (Inr body) s =
            [SetTelaAtual LOADING, SetNodes []] @ (if rv = Part_001 then [SetEdges []] else []) @
            [SetResumo (JStr []), GenerateContent (tema s),
             ConsoleError e, Alert Msg_generation_failed, SetTelaAtual HOME]"
  using assms by (simp add: handleGerarMapa_def try_block_def catch_block_def)

section \<open>The fence stripping\<close>

text \<open>
  C2, as the code has it. On the fenced text \<^verbatim>\<open>"```json\n{\"a\":1}\n```"\<close> the function
  removes the opening marker with the line break after it and the closing marker, and
  nothing else: the line break before the closing marker stays, so the result is
  \<^verbatim>\<open>{"a":1}\<close> followed by one line feed. That result parses as JSON, to the object
  whose only property \<^verbatim>\<open>a\<close> is \<open>1\<close>.
\<close>

theorem cleanJsonString_fenced_example:
  "cleanJsonString fenced_example = bare_example @ [0xA]
   \<and> JSON_parse (cleanJsonString fenced_example) = Some (JObj [(str ''a'', JNum 1)])"
proof -
  have c: "cleanJsonString fenced_example = bare_example @ [0xA]"
    by (simp add: fenced_example_def bare_example_def str_def fence_open_def fence_close_def
        is_space_def replace_fence_open_def replace_fence_close_def cleanJsonString_def
        suffix_to_prefix)
  have "JSON_parse (bare_example @ [0xA]) = Some (JObj [(str ''a'', JNum 1)])"
    by (simp add: bare_example_def JSON_parse_def str_def is_json_ws_def is_digit_def
        lex_number_def lex_int_def lex_frac_def lex_exp_def digits_val_def scale10_def)
  with c show ?thesis by simp
qed

text \<open>
  C2 as the specification states it, refuted: the result is not the text \<^verbatim>\<open>{"a":1}\<close>
  itself.
\<close>

theorem cleanJsonString_fenced_example_not_bare:
  "cleanJsonString fenced_example \<noteq> bare_example"
  by (simp add: fenced_example_def bare_example_def str_def fence_open_def fence_close_def
      is_space_def replace_fence_open_def replace_fence_close_def cleanJsonString_def
      suffix_to_prefix)

text \<open>
  C6. The function is the identity on every string that neither starts with the opening
  marker \<^verbatim>\<open>```json\<close> nor ends with the closing marker \<^verbatim>\<open>```\<close>; in particular on
  every JSON text that is not wrapped in a fence.
\<close>

theorem cleanJsonString_unfenced:
  assumes "\<not> prefix fence_open s" and "\<not> suffix fence_close s"
  shows "cleanJsonString s = s"
  using assms by (simp add: cleanJsonString_def replace_fence_open_def replace_fence_close_def)

theorem cleanJsonString_unfenced_witness:
  "\<not> prefix fence_open bare_example \<and> \<not> suffix fence_close bare_example
   \<and> JSON_parse bare_example = Some (JObj [(str ''a'', JNum 1)])
   \<and> cleanJsonString bare_example = bare_example"
proof -
  have a: "\<not> prefix fence_open bare_example"
    by (simp add: bare_example_def str_def fence_open_def)
  have b: "\<not> suffix fence_close bare_example"
    by (simp add: bare_example_def str_def fence_close_def suffix_to_prefix)
  have c: "JSON_parse bare_example = Some (JObj [(str ''a'', JNum 1)])"
    by (simp add: bare_example_def JSON_parse_def str_def is_json_ws_def is_digit_def
        lex_number_def lex_int_def lex_frac_def lex_exp_def digits_val_def scale10_def)
  from a b c cleanJsonString_unfenced [OF a b] show ?thesis by simp
qed

section \<open>The reset\<close>

text \<open>
  C9. From every state, \<^verbatim>\<open>handleVoltar\<close> leaves the topic the empty string, the node
  list and the edge list empty, the summary the empty string and the screen HOME: the
  values of the initial state.
\<close>

theorem handleVoltar_resets:
  "tema (run s handleVoltar) = tema initial_state \<and> tema initial_state = []
   \<and> nodes (run s handleVoltar) = nodes initial_state \<and> nodes initial_state = []
   \<and> edges (run s handleVoltar) = edges initial_state \<and> edges initial_state = []
   \<and> resumo (run s handleVoltar) = resumo initial_state \<and> resumo initial_state = JStr []
   \<and> telaAtual (run s handleVoltar) = HOME"
  by (simp add: run_def handleVoltar_def initial_state_def)

section \<open>The reshaping of the nodes\<close>

text \<open>
  C3. Let the payload's \<^verbatim>\<open>mapa.nodes\<close> be an array none of whose entries is null (an
  entry of a parsed array is never undefined). Then the reshaping returns a list of the
  same length, and its entry at each position has the \<^verbatim>\<open>id\<close> and the \<^verbatim>\<open>position\<close> of the
  payload's entry there, has the \<^verbatim>\<open>type\<close> \<^verbatim>\<open>'mindmap'\<close>, and has a \<^verbatim>\<open>data\<close> object with
  every property of the entry's \<^verbatim>\<open>data\<close> other than \<^verbatim>\<open>id\<close> and with the property
  \<^verbatim>\<open>id\<close> equal to the entry's own \<^verbatim>\<open>id\<close>.
\<close>

theorem processedNodes_entries:
  assumes mapa: "get dadosCompletos (str ''mapa'') = Inr mapa"
    and ns: "get mapa (str ''nodes'') = Inr (JArr ns)"
    and defined: "\<forall>n \<in> set ns. n \<noteq> JNull \<and> n \<noteq> JUndefined"
  shows "\<exists>ps. processedNodes dadosCompletos = Inr ps \<and> length ps = length ns \<and>
     (\<forall>j < length ns. \<exists>d i d'.
        get (ns ! j) (str ''data'') = Inr d \<and> get (ns ! j) (str ''id'') = Inr i
        \<and> field (ps ! j) (str ''id'') = field (ns ! j) (str ''id'')
        \<and> field (ps ! j) (str ''position'') = field (ns ! j) (str ''position'')
        \<and> field (ps ! j) (str ''type'') = Some (JStr (str ''mindmap''))
        \<and> field (ps ! j) (str ''data'') = Some d'
        \<and> (\<forall>k. k \<noteq> str ''id'' \<longrightarrow> field d' k = field d k)
        \<and> field d' (str ''id'') = Some i)"
proof -
  have "\<forall>n \<in> set ns. \<exists>p. processNode n = Inr p"
    using defined processNode_defined by blast
  from mapE_total [OF this] obtain ps where ps: "mapE processNode ns = Inr ps"
    "length ps = length ns" "\<forall>j < length ns. processNode (ns ! j) = Inr (ps ! j)"
    by blast
  have run: "processedNodes dadosCompletos = Inr ps"
    by (simp add: processedNodes_def mapa ns array_map_def ps(1))
  have "\<exists>d i d'.
        get (ns ! j) (str ''data'') = Inr d \<and> get (ns ! j) (str ''id'') = Inr i
        \<and> field (ps ! j) (str ''id'') = field (ns ! j) (str ''id'')
        \<and> field (ps ! j) (str ''position'') = field (ns ! j) (str ''position'')
        \<and> field (ps ! j) (str ''type'') = Some (JStr (str ''mindmap''))
        \<and> field (ps ! j) (str ''data'') = Some d'
        \<and> (\<forall>k. k \<noteq> str ''id'' \<longrightarrow> field d' k = field d k)
        \<and> field d' (str ''id'') = Some i" if "j < length ns" for j
  proof -
    from ps(3) that have "processNode (ns ! j) = Inr (ps ! j)" by simp
    from processNode_fields [OF this] obtain d i d' where
      f: "get (ns ! j) (str ''data'') = Inr d" "get (ns ! j) (str ''id'') = Inr i"
        "\<forall>k. k \<noteq> str ''type'' \<and> k \<noteq> str ''data'' \<longrightarrow> field (ps ! j) k = field (ns ! j) k"
        "field (ps ! j) (str ''type'') = Some (JStr (str ''mindmap''))"
        "field (ps ! j) (str ''data'') = Some d'"
        "\<forall>k. k \<noteq> str ''id'' \<longrightarrow> field d' k = field d k"
        "field d' (str ''id'') = Some i"
      by blast
    from f(3) have "field (ps ! j) (str ''id'') = field (ns ! j) (str ''id'')"
      "field (ps ! j) (str ''position'') = field (ns ! j) (str ''position'')"
      by (simp_all add: key_distinct)
    with f show ?thesis by blast
  qed
  with run ps(2) show ?thesis by blast
qed

theorem processedNodes_entries_witness:
  "get example_payload (str ''mapa'') = Inr example_mapa
   \<and> get example_mapa (str ''nodes'') = Inr (JArr [example_node])
   \<and> example_node \<noteq> JNull \<and> example_node \<noteq> JUndefined
   \<and> (\<exists>ps d'. processedNodes example_payload = Inr ps \<and> length ps = 1
        \<and> field (ps ! 0) (str ''id'') = Some (JStr (str ''1''))
        \<and> field (ps ! 0) (str ''position'') = Some (JObj [(str ''x'', JNum 0), (str ''y'', JNum 0)])
        \<and> field (ps ! 0) (str ''type'') = Some (JStr (str ''mindmap''))
        \<and> field (ps ! 0) (str ''data'') = Some d'
        \<and> field d' (str ''label'') = Some (JStr (str ''Root''))
        \<and> field d' (str ''descricao'') = Some (JStr (str ''d''))
        \<and> field d' (str ''id'') = Some (JStr (str ''1'')))"
proof -
  have m: "get example_payload (str ''mapa'') = Inr example_mapa"
    by (simp add: example_payload_def get_def field_def str_def)
  have n: "get example_mapa (str ''nodes'') = Inr (JArr [example_node])"
    by (simp add: example_mapa_def get_def field_def str_def)
  have e: "example_node \<noteq> JNull \<and> example_node \<noteq> JUndefined"
    by (simp add: example_node_def)
  then have "\<forall>n \<in> set [example_node]. n \<noteq> JNull \<and> n \<noteq> JUndefined"
    by simp
  from processedNodes_entries [OF m n this] obtain ps d i d' where
    r: "processedNodes example_payload = Inr ps" "length ps = 1"
      "get example_node (str ''data'') = Inr d" "get example_node (str ''id'') = Inr i"
      "field (ps ! 0) (str ''id'') = field example_node (str ''id'')"
      "field (ps ! 0) (str ''position'') = field example_node (str ''position'')"
      "field (ps ! 0) (str ''type'') = Some (JStr (str ''mindmap''))"
      "field (ps ! 0) (str ''data'') = Some d'"
      "\<forall>k. k \<noteq> str ''id'' \<longrightarrow> field d' k = field d k"
      "field d' (str ''id'') = Some i"
    by fastforce
  have d: "d = JObj [(str ''label'', JStr (str ''Root'')), (str ''descricao'', JStr (str ''d''))]"
    using r(3) by (simp add: example_node_def get_def field_def str_def)
  have i: "i = JStr (str ''1'')"
    using r(4) by (simp add: example_node_def get_def field_def str_def)
  have 1: "field (ps ! 0) (str ''id'') = Some (JStr (str ''1''))"
    using r(5) by (simp add: example_node_def field_def str_def)
  have 2: "field (ps ! 0) (str ''position'') = Some (JObj [(str ''x'', JNum 0), (str ''y'', JNum 0)])"
    using r(6) by (simp add: example_node_def field_def str_def)
  have "str ''label'' \<noteq> str ''id''" "str ''descricao'' \<noteq> str ''id''"
    by (simp_all add: str_def)
  with r(9) have "field d' (str ''label'') = field d (str ''label'')"
    "field d' (str ''descricao'') = field d (str ''descricao'')"
    by simp_all
  then have 3: "field d' (str ''label'') = Some (JStr (str ''Root''))"
    "field d' (str ''descricao'') = Some (JStr (str ''d''))"
    by (simp_all add: d field_def str_def)
  from m n e r(1,2,7,8,10) i 1 2 3 show ?thesis by blast
qed

text \<open>
  C3 as stated for every parsed payload, refuted. The payload is parsed from a text and
  its node list holds the well-formed node of \<open>example_payload\<close> and then null. The
  callback throws on the null entry, so the reshaping of the nodes ends in a TypeError and
  there is no reshaped list, not even an entry for the well-formed node; the handler
  shows the alert and ends with the node list empty.
\<close>

theorem processedNodes_mixed_counterexample:
  "JSON_parse (cleanJsonString mixed_text) = Some mixed_payload
   \<and> get mixed_payload (str ''mapa'') = Inr mixed_mapa
   \<and> get mixed_mapa (str ''nodes'') = Inr (JArr [example_node, JNull])
   \<and> processedNodes mixed_payload = Inl TypeError
   \<and> handleGerarMapa Part_001 (Some (str ''k'')) (Inr mixed_text) typed_state =
        [SetTelaAtual LOADING, SetNodes [], SetEdges [], SetResumo (JStr []),
         GenerateContent (tema typed_state),
         ConsoleError TypeError, Alert Msg_generation_failed, SetTelaAtual HOME]
   \<and> nodes (run typed_state
        (handleGerarMapa Part_001 (Some (str ''k'')) (Inr mixed_text) typed_state)) = []"
proof -
  have m: "get mixed_payload (str ''mapa'') = Inr mixed_mapa"
    by (simp add: mixed_payload_def get_def field_def str_def)
  have n: "get mixed_mapa (str ''nodes'') = Inr (JArr [example_node, JNull])"
    by (simp add: mixed_mapa_def get_def field_def str_def)
  have f: "processedNodes mixed_payload = Inl TypeError"
    by (rule processedNodes_null_entry [OF m n]) simp
  have t: "tema typed_state \<noteq> []" and k: "str ''k'' \<noteq> []"
    by (simp_all add: typed_state_def str_def)
  have h: "handleGerarMapa Part_001 (Some (str ''k'')) (Inr mixed_text) typed_state =
        [SetTelaAtual LOADING, SetNodes [], SetEdges [], SetResumo (JStr []),
         GenerateContent (tema typed_state),
         ConsoleError TypeError, Alert Msg_generation_failed, SetTelaAtual HOME]"
    using handleGerarMapa_reshaping_fails [OF t k parse_mixed_text f, of Part_001] by simp
  have "nodes (run typed_state
        (handleGerarMapa Part_001 (Some (str ''k'')) (Inr mixed_text) typed_state)) = []"
    by (simp add: h run_def)
  with parse_mixed_text m n f h show ?thesis by simp
qed

text \<open>
  C10. Under the same condition on the payload (\<^verbatim>\<open>mapa.nodes\<close> an array without a null
  entry), the \<^verbatim>\<open>data\<close> of every reshaped node has an \<^verbatim>\<open>id\<close> that reads as the node's
  own \<^verbatim>\<open>id\<close>, whatever the \<^verbatim>\<open>data\<close> of the payload's node held under that name: the
  property written last in the object literal wins.
\<close>

theorem processedNodes_data_id:
  assumes mapa: "get dadosCompletos (str ''mapa'') = Inr mapa"
    and ns: "get mapa (str ''nodes'') = Inr (JArr ns)"
    and defined: "\<forall>n \<in> set ns. n \<noteq> JNull \<and> n \<noteq> JUndefined"
  shows "\<exists>ps. processedNodes dadosCompletos = Inr ps \<and> length ps = length ns \<and>
     (\<forall>j < length ns. \<exists>d'.
        get (ps ! j) (str ''data'') = Inr d' \<and> get d' (str ''id'') = get (ns ! j) (str ''id''))"
proof -
  have "\<forall>n \<in> set ns. \<exists>p. processNode n = Inr p"
    using defined processNode_defined by blast
  from mapE_total [OF this] obtain ps where ps: "mapE processNode ns = Inr ps"
    "length ps = length ns" "\<forall>j < length ns. processNode (ns ! j) = Inr (ps ! j)"
    by blast
  have run: "processedNodes dadosCompletos = Inr ps"
    by (simp add: processedNodes_def mapa ns array_map_def ps(1))
  have "\<exists>d'. get (ps ! j) (str ''data'') = Inr d' \<and> get d' (str ''id'') = get (ns ! j) (str ''id'')"
    if "j < length ns" for j
  proof -
    from ps(3) that have p: "processNode (ns ! j) = Inr (ps ! j)" by simp
    from processNode_fields [OF p] obtain i d' where
      f: "get (ns ! j) (str ''id'') = Inr i" "field (ps ! j) (str ''data'') = Some d'"
        "field d' (str ''id'') = Some i"
      by blast
    from p have "ps ! j \<noteq> JNull" "ps ! j \<noteq> JUndefined"
      by (auto simp: processNode_def split: sum.splits)
    then have 1: "get (ps ! j) (str ''data'') = Inr d'"
      by (simp add: get_defined f(2))
    from f(3) have "d' \<noteq> JNull" "d' \<noteq> JUndefined"
      by (auto simp: field_def)
    then have "get d' (str ''id'') = Inr i"
      by (simp add: get_defined f(3))
    with 1 f(1) show ?thesis by simp
  qed
  with run ps(2) show ?thesis by blast
qed

theorem processedNodes_data_id_witness:
  "get clashing_payload (str ''mapa'') = Inr (JObj [(str ''nodes'', JArr [clashing_node]), (str ''edges'', JArr [])])
   \<and> get (JObj [(str ''nodes'', JArr [clashing_node]), (str ''edges'', JArr [])]) (str ''nodes'') = Inr (JArr [clashing_node])
   \<and> clashing_node \<noteq> JNull \<and> clashing_node \<noteq> JUndefined
   \<and> (\<exists>d. get clashing_node (str ''data'') = Inr d \<and> get d (str ''id'') = Inr (JStr (str ''x'')))
   \<and> (\<exists>ps d'. processedNodes clashing_payload = Inr ps \<and> length ps = 1
         \<and> get (ps ! 0) (str ''data'') = Inr d' \<and> get d' (str ''id'') = Inr (JStr (str ''7'')))"
proof -
  let ?m = "JObj [(str ''nodes'', JArr [clashing_node]), (str ''edges'', JArr [])]"
  have m: "get clashing_payload (str ''mapa'') = Inr ?m"
    by (simp add: clashing_payload_def get_def field_def str_def)
  have n: "get ?m (str ''nodes'') = Inr (JArr [clashing_node])"
    by (simp add: get_def field_def str_def)
  have e: "clashing_node \<noteq> JNull \<and> clashing_node \<noteq> JUndefined"
    by (simp add: clashing_node_def)
  then have a: "\<forall>n \<in> set [clashing_node]. n \<noteq> JNull \<and> n \<noteq> JUndefined"
    by simp
  have old: "\<exists>d. get clashing_node (str ''data'') = Inr d \<and> get d (str ''id'') = Inr (JStr (str ''x''))"
    by (simp add: clashing_node_def get_def field_def str_def)
  from processedNodes_data_id [OF m n a] obtain ps d' where
    r: "processedNodes clashing_payload = Inr ps" "length ps = 1"
      "get (ps ! 0) (str ''data'') = Inr d'"
      "get d' (str ''id'') = get clashing_node (str ''id'')"
    by fastforce
  have "get clashing_node (str ''id'') = Inr (JStr (str ''7''))"
    by (simp add: clashing_node_def get_def field_def str_def)
  with r m n e old show ?thesis by auto
qed

text \<open>
  C10 as stated for every node, refuted. The node list holds the node with the \<^verbatim>\<open>id\<close>
  \<^verbatim>\<open>"7"\<close> whose \<^verbatim>\<open>data\<close> has the \<^verbatim>\<open>id\<close> \<^verbatim>\<open>"x"\<close>, and then null. The reshaping ends in
  a TypeError: no \<^verbatim>\<open>data.id\<close> is overwritten and nothing is stored.
\<close>

theorem processedNodes_data_id_counterexample:
  "JSON_parse (cleanJsonString clashing_mixed_text) = Some clashing_mixed_payload
   \<and> get clashing_mixed_payload (str ''mapa'') = Inr clashing_mixed_mapa
   \<and> get clashing_mixed_mapa (str ''nodes'') = Inr (JArr [clashing_node, JNull])
   \<and> field clashing_node (str ''id'') = Some (JStr (str ''7''))
   \<and> field clashing_node (str ''data'') =
        Some (JObj [(str ''id'', JStr (str ''x'')), (str ''label'', JStr (str ''L''))])
   \<and> processedNodes clashing_mixed_payload = Inl TypeError
   \<and> nodes (run typed_state
        (handleGerarMapa Part_000 (Some (str ''k'')) (Inr clashing_mixed_text) typed_state)) = []"
proof -
  have m: "get clashing_mixed_payload (str ''mapa'') = Inr clashing_mixed_mapa"
    by (simp add: clashing_mixed_payload_def get_def field_def str_def)
  have n: "get clashing_mixed_mapa (str ''nodes'') = Inr (JArr [clashing_node, JNull])"
    by (simp add: clashing_mixed_mapa_def get_def field_def str_def)
  have c: "field clashing_node (str ''id'') = Some (JStr (str ''7''))"
    "field clashing_node (str ''data'') =
        Some (JObj [(str ''id'', JStr (str ''x'')), (str ''label'', JStr (str ''L''))])"
    by (simp_all add: clashing_node_def field_def str_def)
  have f: "processedNodes clashing_mixed_payload = Inl TypeError"
    by (rule processedNodes_null_entry [OF m n]) simp
  have t: "tema typed_state \<noteq> []" and k: "str ''k'' \<noteq> []"
    by (simp_all add: typed_state_def str_def)
  have "nodes (run typed_state
        (handleGerarMapa Part_000 (Some (str ''k'')) (Inr clashing_mixed_text) typed_state)) = []"
    using handleGerarMapa_reshaping_fails [OF t k parse_clashing_mixed_text f, of Part_000]
    by (simp add: run_def)
  with parse_clashing_mixed_text m n c f show ?thesis by simp
qed

section \<open>The reshaping of the edges\<close>

text \<open>
  C4. Let the payload's \<^verbatim>\<open>mapa.edges\<close> be an array. Then the reshaping of the edges
  returns (it throws nothing) a list of the same length, and its entry at each position
  has the \<^verbatim>\<open>id\<close>, the \<^verbatim>\<open>source\<close> and the \<^verbatim>\<open>target\<close> of the payload's entry there, has
  \<^verbatim>\<open>animated\<close> true and the \<^verbatim>\<open>style\<close> \<^verbatim>\<open>{stroke: '#6b7280', strokeWidth: 2}\<close>, and
  agrees with the payload's entry on every other property. Nothing is asked of the nodes:
  the callback never looks at them, so an edge whose ends name no node passes like any
  other.
\<close>

theorem processedEdges_entries:
  assumes mapa: "get dadosCompletos (str ''mapa'') = Inr mapa"
    and es: "get mapa (str ''edges'') = Inr (JArr es)"
  shows "\<exists>qs. processedEdges dadosCompletos = Inr qs \<and> length qs = length es \<and>
     (\<forall>j < length es.
        field (qs ! j) (str ''id'') = field (es ! j) (str ''id'')
        \<and> field (qs ! j) (str ''source'') = field (es ! j) (str ''source'')
        \<and> field (qs ! j) (str ''target'') = field (es ! j) (str ''target'')
        \<and> field (qs ! j) (str ''animated'') = Some (JBool True)
        \<and> field (qs ! j) (str ''style'') =
            Some (JObj [(str ''stroke'', JStr (str ''#6b7280'')), (str ''strokeWidth'', JNum 2)])
        \<and> (\<forall>k. k \<noteq> str ''animated'' \<and> k \<noteq> str ''style'' \<longrightarrow> field (qs ! j) k = field (es ! j) k))"
proof -
  have run: "processedEdges dadosCompletos = Inr (map processEdge es)"
    by (simp add: processedEdges_def mapa es array_map_def mapE_Inr_map)
  have "field (map processEdge es ! j) (str ''id'') = field (es ! j) (str ''id'')
        \<and> field (map processEdge es ! j) (str ''source'') = field (es ! j) (str ''source'')
        \<and> field (map processEdge es ! j) (str ''target'') = field (es ! j) (str ''target'')
        \<and> field (map processEdge es ! j) (str ''animated'') = Some (JBool True)
        \<and> field (map processEdge es ! j) (str ''style'') =
            Some (JObj [(str ''stroke'', JStr (str ''#6b7280'')), (str ''strokeWidth'', JNum 2)])
        \<and> (\<forall>k. k \<noteq> str ''animated'' \<and> k \<noteq> str ''style'' \<longrightarrow>
              field (map processEdge es ! j) k = field (es ! j) k)"
    if "j < length es" for j
    using that by (simp add: processEdge_fields key_distinct) (simp add: edge_style_def)
  with run show ?thesis by simp
qed

theorem processedEdges_entries_witness:
  "get dangling_payload (str ''mapa'') = Inr dangling_mapa
   \<and> get dangling_mapa (str ''edges'') = Inr (JArr [dangling_edge])
   \<and> get dangling_mapa (str ''nodes'') = Inr (JArr [])
   \<and> JSON_parse (cleanJsonString dangling_text) = Some dangling_payload
   \<and> (\<exists>qs. processedEdges dangling_payload = Inr qs \<and> length qs = 1
        \<and> field (qs ! 0) (str ''id'') = Some (JStr (str ''e1''))
        \<and> field (qs ! 0) (str ''source'') = Some (JStr (str ''1''))
        \<and> field (qs ! 0) (str ''target'') = Some (JStr (str ''99''))
        \<and> field (qs ! 0) (str ''animated'') = Some (JBool True)
        \<and> field (qs ! 0) (str ''style'') =
            Some (JObj [(str ''stroke'', JStr (str ''#6b7280'')), (str ''strokeWidth'', JNum 2)])
        \<and> handleGerarMapa Part_001 (Some (str ''k'')) (Inr dangling_text) typed_state =
            [SetTelaAtual LOADING, SetNodes [], SetEdges [], SetResumo (JStr []),
             GenerateContent (tema typed_state),
             SetNodes [], SetEdges qs, SetResumo (JStr fallback_resumo), SetTelaAtual RESULT])"
proof -
  have m: "get dangling_payload (str ''mapa'') = Inr dangling_mapa"
    by (simp add: dangling_payload_def get_def field_def str_def)
  have e: "get dangling_mapa (str ''edges'') = Inr (JArr [dangling_edge])"
    by (simp add: dangling_mapa_def get_def field_def str_def)
  have n: "get dangling_mapa (str ''nodes'') = Inr (JArr [])"
    by (simp add: dangling_mapa_def get_def field_def str_def)
  from processedEdges_entries [OF m e] obtain qs where
    r: "processedEdges dangling_payload = Inr qs" "length qs = 1"
      "field (qs ! 0) (str ''id'') = field dangling_edge (str ''id'')"
      "field (qs ! 0) (str ''source'') = field dangling_edge (str ''source'')"
      "field (qs ! 0) (str ''target'') = field dangling_edge (str ''target'')"
      "field (qs ! 0) (str ''animated'') = Some (JBool True)"
      "field (qs ! 0) (str ''style'') =
            Some (JObj [(str ''stroke'', JStr (str ''#6b7280'')), (str ''strokeWidth'', JNum 2)])"
    by fastforce
  have f: "field dangling_edge (str ''id'') = Some (JStr (str ''e1''))"
    "field dangling_edge (str ''source'') = Some (JStr (str ''1''))"
    "field dangling_edge (str ''target'') = Some (JStr (str ''99''))"
    by (simp_all add: dangling_edge_def field_def str_def)
  have p: "JSON_parse (cleanJsonString dangling_text) = Some dangling_payload"
    by (rule parse_dangling_text)
  have ps: "processedNodes dangling_payload = Inr []"
    by (simp add: processedNodes_def m n array_map_def)
  have "field dangling_payload (str ''resumo'') = None"
    by (simp add: dangling_payload_def field_def str_def)
  with try_block_success [OF p ps r(1)]
  have t: "try_block (Inr dangling_text) =
      [SetNodes [], SetEdges qs, SetResumo (JStr fallback_resumo), SetTelaAtual RESULT]"
    by simp
  have h: "handleGerarMapa Part_001 (Some (str ''k'')) (Inr dangling_text) typed_state =
            [SetTelaAtual LOADING, SetNodes [], SetEdges [], SetResumo (JStr []),
             GenerateContent (tema typed_state),
             SetNodes [], SetEdges qs, SetResumo (JStr fallback_resumo), SetTelaAtual RESULT]"
    by (simp add: handleGerarMapa_def t) (simp add: typed_state_def str_def)
  from r f m e n p h show ?thesis by auto
qed

section \<open>The generation handler\<close>

text \<open>
  C5. Let the topic and the API key be non-empty, the response parse to a payload, and
  the reshaping of its nodes and edges succeed. If the payload has no \<^verbatim>\<open>resumo\<close> or its
  \<^verbatim>\<open>resumo\<close> is the empty string, the summary stored when the handler ends is the
  fallback text, which is not empty; if its \<^verbatim>\<open>resumo\<close> is a non-empty string, the summary
  stored is that string. The screen is then RESULT.
\<close>

theorem handleGerarMapa_resumo:
  assumes "tema s \<noteq> []" and "key \<noteq> []"
    and "JSON_parse (cleanJsonString text) = Some dadosCompletos"
    and "processedNodes dadosCompletos = Inr ps"
    and "processedEdges dadosCompletos = Inr qs"
  shows "(field dadosCompletos (str ''resumo'') = None
            \<or> field dadosCompletos (str ''resumo'') = Some (JStr []) \<longrightarrow>
          resumo (run s (handleGerarMapa rv (Some key) (Inr text) s)) = JStr fallback_resumo)
       \<and> (\<forall>t. t \<noteq> [] \<and> field dadosCompletos (str ''resumo'') = Some (JStr t) \<longrightarrow>
             resumo (run s (handleGerarMapa rv (Some key) (Inr text) s)) = JStr t)
       \<and> fallback_resumo \<noteq> []
       \<and> telaAtual (run s (handleGerarMapa rv (Some key) (Inr text) s)) = RESULT"
proof -
  let ?r = "case field dadosCompletos (str ''resumo'') of None \<Rightarrow> JUndefined | Some x \<Rightarrow> x"
  have t: "try_block (Inr text) =
     [SetNodes ps, SetEdges qs, SetResumo (if truthy ?r then ?r else JStr fallback_resumo),
      SetTelaAtual RESULT]"
    using try_block_success [OF assms(3-5)] by (simp add: Let_def)
  have "handleGerarMapa rv (Some key) (Inr text) s =
     [SetTelaAtual LOADING, SetNodes []] @ (if rv = Part_001 then [SetEdges []] else []) @
     [SetResumo (JStr [])] @ GenerateContent (tema s) # try_block (Inr text)"
    using assms(1,2) by (simp add: handleGerarMapa_def)
  then have r: "resumo (run s (handleGerarMapa rv (Some key) (Inr text) s)) =
        (if truthy ?r then ?r else JStr fallback_resumo)"
    and s: "telaAtual (run s (handleGerarMapa rv (Some key) (Inr text) s)) = RESULT"
    by (simp_all add: run_loading t) (simp_all add: run_def)
  from r s show ?thesis
    by (auto simp: fallback_resumo_nonempty)
qed

theorem handleGerarMapa_resumo_witness:
  "tema typed_state \<noteq> [] \<and> str ''k'' \<noteq> []
   \<and> JSON_parse (cleanJsonString empty_resumo_text) = Some empty_resumo_payload
   \<and> processedNodes empty_resumo_payload = Inr [] \<and> processedEdges empty_resumo_payload = Inr []
   \<and> field empty_resumo_payload (str ''resumo'') = Some (JStr [])
   \<and> resumo (run typed_state (handleGerarMapa Part_001 (Some (str ''k'')) (Inr empty_resumo_text) typed_state))
       = JStr fallback_resumo
   \<and> JSON_parse (cleanJsonString no_resumo_text) = Some no_resumo_payload
   \<and> processedNodes no_resumo_payload = Inr [] \<and> processedEdges no_resumo_payload = Inr []
   \<and> field no_resumo_payload (str ''resumo'') = None
   \<and> resumo (run typed_state (handleGerarMapa Part_000 (Some (str ''k'')) (Inr no_resumo_text) typed_state))
       = JStr fallback_resumo
   \<and> JSON_parse (cleanJsonString example_text) = Some example_payload
   \<and> (\<exists>ps. processedNodes example_payload = Inr ps) \<and> processedEdges example_payload = Inr []
   \<and> field example_payload (str ''resumo'') = Some (JStr (str ''s'')) \<and> str ''s'' \<noteq> []
   \<and> resumo (run typed_state (handleGerarMapa Part_001 (Some (str ''k'')) (Inr example_text) typed_state))
       = JStr (str ''s'')"
proof -
  have t: "tema typed_state \<noteq> []" and k: "str ''k'' \<noteq> []" and s: "str ''s'' \<noteq> []"
    by (simp_all add: typed_state_def str_def)
  have p1: "JSON_parse (cleanJsonString empty_resumo_text) = Some empty_resumo_payload"
    by (simp add: parse_empty_resumo_text empty_resumo_payload_def)
  have n1: "processedNodes empty_resumo_payload = Inr []"
    and e1: "processedEdges empty_resumo_payload = Inr []"
    and f1: "field empty_resumo_payload (str ''resumo'') = Some (JStr [])"
    by (simp_all add: empty_resumo_payload_def reshape_eval)
  have p2: "JSON_parse (cleanJsonString no_resumo_text) = Some no_resumo_payload"
    by (simp add: parse_no_resumo_text no_resumo_payload_def)
  have n2: "processedNodes no_resumo_payload = Inr []"
    and e2: "processedEdges no_resumo_payload = Inr []"
    and f2: "field no_resumo_payload (str ''resumo'') = None"
    by (simp_all add: no_resumo_payload_def reshape_eval)
  have p3: "JSON_parse (cleanJsonString example_text) = Some example_payload"
    by (rule parse_example_text)
  obtain ps where n3: "processedNodes example_payload = Inr ps"
    by (simp add: example_payload_def example_mapa_def example_node_def reshape_eval)
  have e3: "processedEdges example_payload = Inr []"
    and f3: "field example_payload (str ''resumo'') = Some (JStr (str ''s''))"
    by (simp_all add: example_payload_def example_mapa_def reshape_eval)
  from handleGerarMapa_resumo [OF t k p1 n1 e1, of Part_001] f1
  have r1: "resumo (run typed_state (handleGerarMapa Part_001 (Some (str ''k'')) (Inr empty_resumo_text) typed_state))
       = JStr fallback_resumo"
    by simp
  from handleGerarMapa_resumo [OF t k p2 n2 e2, of Part_000] f2
  have r2: "resumo (run typed_state (handleGerarMapa Part_000 (Some (str ''k'')) (Inr no_resumo_text) typed_state))
       = JStr fallback_resumo"
    by simp
  from handleGerarMapa_resumo [OF t k p3 n3 e3, of Part_001] f3 s
  have r3: "resumo (run typed_state (handleGerarMapa Part_001 (Some (str ''k'')) (Inr example_text) typed_state))
       = JStr (str ''s'')"
    by simp
  from t k s p1 n1 e1 f1 r1 p2 n2 e2 f2 r2 p3 n3 e3 f3 r3 show ?thesis
    by blast
qed

text \<open>
  C7. Let the topic and the API key be non-empty, and let the attempt fail: the request
  ends in an exception, or its text does not parse, or the reshaping of the nodes or of
  the edges throws. Then the handler does exactly this: it enters LOADING and clears, sends
  the request, logs the exception, shows the one alert text it has for all of these
  failures, and sets the screen to HOME. A text that does not parse is logged as a
  SyntaxError. The handler ends with the screen HOME and the node list empty: the only
  value it gave the node list is the empty list.
\<close>

theorem handleGerarMapa_failure:
  assumes "tema s \<noteq> []" and "key \<noteq> []"
    and fails: "(\<exists>e. response = Inl e)
       \<or> (\<exists>text. response = Inr text \<and> JSON_parse (cleanJsonString text) = None)
       \<or> (\<exists>text d e. response = Inr text \<and> JSON_parse (cleanJsonString text) = Some d
             \<and> (processedNodes d = Inl e \<or> processedEdges d = Inl e))"
  shows "(\<exists>e. handleGerarMapa rv (Some key) response s =
            [SetTelaAtual LOADING, SetNodes []] @ (if rv = Part_001 then [SetEdges []] else []) @
            [SetResumo (JStr []), GenerateContent (tema s),
             ConsoleError e, Alert Msg_generation_failed, SetTelaAtual HOME]
          \<and> (\<forall>text. response = Inr text \<and> JSON_parse (cleanJsonString text) = None
                 \<longrightarrow> e = SyntaxError))
       \<and> telaAtual (run s (handleGerarMapa rv (Some key) response s)) = HOME
       \<and> nodes (run s (handleGerarMapa rv (Some key) response s)) = []"
proof -
  have "\<exists>e. try_block response = catch_block e
          \<and> (\<forall>text. response = Inr text \<and> JSON_parse (cleanJsonString text) = None
                 \<longrightarrow> e = SyntaxError)"
    using fails by (auto simp: try_block_def split: sum.splits)
  then obtain e where c: "try_block response = catch_block e"
    and p: "\<forall>text. response = Inr text \<and> JSON_parse (cleanJsonString text) = None
                 \<longrightarrow> e = SyntaxError"
    by blast
  have h: "handleGerarMapa rv (Some key) response s =
            [SetTelaAtual LOADING, SetNodes []] @ (if rv = Part_001 then [SetEdges []] else []) @
            [SetResumo (JStr []), GenerateContent (tema s),
             ConsoleError e, Alert Msg_generation_failed, SetTelaAtual HOME]"
    using assms(1,2) by (simp add: handleGerarMapa_def c catch_block_def)
  have "telaAtual (run s (handleGerarMapa rv (Some key) response s)) = HOME"
    "nodes (run s (handleGerarMapa rv (Some key) response s)) = []"
    by (simp_all add: h run_def)
  with h p show ?thesis by blast
qed

theorem handleGerarMapa_failure_witness:
  "tema typed_state \<noteq> [] \<and> str ''k'' \<noteq> []
   \<and> JSON_parse (cleanJsonString truncated_text) = None
   \<and> handleGerarMapa Part_001 (Some (str ''k'')) (Inr truncated_text) typed_state =
        [SetTelaAtual LOADING, SetNodes [], SetEdges [], SetResumo (JStr []),
         GenerateContent (tema typed_state),
         ConsoleError SyntaxError, Alert Msg_generation_failed, SetTelaAtual HOME]
   \<and> telaAtual (run typed_state (handleGerarMapa Part_001 (Some (str ''k'')) (Inr truncated_text) typed_state)) = HOME
   \<and> nodes (run typed_state (handleGerarMapa Part_001 (Some (str ''k'')) (Inr truncated_text) typed_state)) = []
   \<and> telaAtual (run typed_state (handleGerarMapa Part_000 (Some (str ''k'')) (Inl External) typed_state)) = HOME
   \<and> nodes (run typed_state (handleGerarMapa Part_000 (Some (str ''k'')) (Inl External) typed_state)) = []
   \<and> (\<exists>d. JSON_parse (cleanJsonString null_node_text) = Some d \<and> processedNodes d = Inl TypeError)
   \<and> telaAtual (run typed_state (handleGerarMapa Part_001 (Some (str ''k'')) (Inr null_node_text) typed_state)) = HOME
   \<and> nodes (run typed_state (handleGerarMapa Part_001 (Some (str ''k'')) (Inr null_node_text) typed_state)) = []"
proof -
  have t: "tema typed_state \<noteq> []" and k: "str ''k'' \<noteq> []"
    by (simp_all add: typed_state_def str_def)
  have p: "JSON_parse (cleanJsonString truncated_text) = None"
    by (rule parse_truncated_text)
  then have f: "(\<exists>e. (Inr truncated_text :: exn + js_string) = Inl e)
       \<or> (\<exists>text. (Inr truncated_text :: exn + js_string) = Inr text
             \<and> JSON_parse (cleanJsonString text) = None)
       \<or> (\<exists>text d e. (Inr truncated_text :: exn + js_string) = Inr text
             \<and> JSON_parse (cleanJsonString text) = Some d
             \<and> (processedNodes d = Inl e \<or> processedEdges d = Inl e))"
    by simp
  have g: "(\<exists>e. (Inl External :: exn + js_string) = Inl e)
       \<or> (\<exists>text. (Inl External :: exn + js_string) = Inr text
             \<and> JSON_parse (cleanJsonString text) = None)
       \<or> (\<exists>text d e. (Inl External :: exn + js_string) = Inr text
             \<and> JSON_parse (cleanJsonString text) = Some d
             \<and> (processedNodes d = Inl e \<or> processedEdges d = Inl e))"
    by simp
  let ?d = "JObj [(str ''mapa'', JObj [(str ''nodes'', JArr [JNull]), (str ''edges'', JArr [])]),
                  (str ''resumo'', JStr (str ''s''))]"
  have n: "processedNodes ?d = Inl TypeError"
    by (simp add: reshape_eval)
  with parse_null_node_text
  have d: "\<exists>d. JSON_parse (cleanJsonString null_node_text) = Some d \<and> processedNodes d = Inl TypeError"
    by blast
  then have h: "(\<exists>e. (Inr null_node_text :: exn + js_string) = Inl e)
       \<or> (\<exists>text. (Inr null_node_text :: exn + js_string) = Inr text
             \<and> JSON_parse (cleanJsonString text) = None)
       \<or> (\<exists>text d e. (Inr null_node_text :: exn + js_string) = Inr text
             \<and> JSON_parse (cleanJsonString text) = Some d
             \<and> (processedNodes d = Inl e \<or> processedEdges d = Inl e))"
    by blast
  from handleGerarMapa_failure [OF t k f, of Part_001]
    handleGerarMapa_failure [OF t k g, of Part_000]
    handleGerarMapa_failure [OF t k h, of Part_001] p t k d
  show ?thesis
    by auto
qed



section \<open>The export\<close>

text \<open>
  C8. Let the export be attempted (the diagram is mounted) and fail, in the rasterization
  or in the assembly of the document. Then the handler shows the export alert, calls no
  setter of the screen, and leaves the whole state as it was: topic, nodes, edges, summary
  and screen, so a screen that was RESULT is still RESULT.
\<close>

theorem handleExportPDF_failure:
  assumes "outcome = Rasterization_fails err \<or> outcome = Assembly_fails err"
  shows "Alert Msg_export_failed \<in> set (handleExportPDF rv True outcome s)
       \<and> (\<forall>t. SetTelaAtual t \<notin> set (handleExportPDF rv True outcome s))
       \<and> run s (handleExportPDF rv True outcome s) = s"
  using assms by (auto simp: handleExportPDF_def run_def)

theorem handleExportPDF_failure_witness:
  "telaAtual result_state = RESULT
   \<and> Alert Msg_export_failed \<in> set (handleExportPDF Part_001 True (Rasterization_fails External) result_state)
   \<and> run result_state (handleExportPDF Part_001 True (Rasterization_fails External) result_state) = result_state
   \<and> telaAtual (run result_state (handleExportPDF Part_001 True (Rasterization_fails External) result_state)) = RESULT
   \<and> Alert Msg_export_failed \<in> set (handleExportPDF Part_000 True (Assembly_fails TypeError) result_state)
   \<and> run result_state (handleExportPDF Part_000 True (Assembly_fails TypeError) result_state) = result_state"
proof -
  have r: "telaAtual result_state = RESULT"
    by (simp add: result_state_def)
  have a: "Rasterization_fails External = Rasterization_fails External
             \<or> Rasterization_fails External = Assembly_fails External"
    and b: "Assembly_fails TypeError = Rasterization_fails TypeError
             \<or> Assembly_fails TypeError = Assembly_fails TypeError"
    by simp_all
  from handleExportPDF_failure [OF a, of Part_001 result_state]
    handleExportPDF_failure [OF b, of Part_000 result_state] r
  show ?thesis by simp
qed

end
